theory Spec2Isabelle
  imports Main
begin

section \<open>JavaScript values\<close>

text \<open>
  The client passes decoded JSON through untyped, so the model works on the values the
  JavaScript runtime has: \<open>undefined\<close>, \<open>null\<close>, booleans, numbers, strings, arrays and
  objects. Numbers are the integers (every number the tool schemas admit is one) and
  \<open>NaN\<close>, which \<open>Number.parseInt\<close> produces. An object is the list of its own enumerable
  properties in the order \<open>Object.entries\<close> yields them. Strings are byte strings (UTF-8).
\<close>

datatype jsvalue =
    JUndefined
  | JNull
  | JBool bool
  | JNum int
  | JNaN
  | JStr string
  | JArr "jsvalue list"
  | JObj "(string \<times> jsvalue) list"

text \<open>Truthiness, as \<open>!x\<close>, \<open>x ? a : b\<close> and \<open>x || y\<close> test it.\<close>

fun truthy :: "jsvalue \<Rightarrow> bool" where
  "truthy JUndefined = False"
| "truthy JNull = False"
| "truthy (JBool b) = b"
| "truthy (JNum n) = (n \<noteq> 0)"
| "truthy JNaN = False"
| "truthy (JStr s) = (s \<noteq> [])"
| "truthy (JArr xs) = True"
| "truthy (JObj kvs) = True"

definition js_or :: "jsvalue \<Rightarrow> jsvalue \<Rightarrow> jsvalue" where
  "js_or a b = (if truthy a then a else b)"

text \<open>Decimal rendering of a number, as \<open>String(n)\<close> and template literals give it
  (below 10^21 in size; from there on the runtime prints an exponent).\<close>

fun show_nat :: "nat \<Rightarrow> string" where
  "show_nat n = (if n < 10 then [''0123456789'' ! n]
                 else show_nat (n div 10) @ [''0123456789'' ! (n mod 10)])"

declare show_nat.simps [simp del]

definition show_int :: "int \<Rightarrow> string" where
  "show_int i = (if i < 0 then CHR ''-'' # show_nat (nat (- i)) else show_nat (nat i))"

fun join :: "string \<Rightarrow> string list \<Rightarrow> string" where
  "join sep [] = []"
| "join sep [x] = x"
| "join sep (x # y # ys) = x @ sep @ join sep (y # ys)"

text \<open>\<open>String(v)\<close>: an array joins its elements with commas (\<open>null\<close> and \<open>undefined\<close>
  elements render empty), an object is \<open>[object Object]\<close>.\<close>

fun js_String :: "jsvalue \<Rightarrow> string" where
  "js_String JUndefined = ''undefined''"
| "js_String JNull = ''null''"
| "js_String (JBool b) = (if b then ''true'' else ''false'')"
| "js_String (JNum n) = show_int n"
| "js_String JNaN = ''NaN''"
| "js_String (JStr s) = s"
| "js_String (JArr xs) =
     join '','' (map (\<lambda>x. if x = JNull \<or> x = JUndefined then [] else js_String x) xs)"
| "js_String (JObj kvs) = ''[object Object]''"

text \<open>\<open>Number.parseInt(s, 10)\<close>: leading white space is skipped, a sign is read, then the
  longest run of decimal digits; with no digit there the result is \<open>NaN\<close>. The value is
  the exact integer (the runtime rounds one beyond 2^53 to a double).\<close>

definition is_ws :: "char \<Rightarrow> bool" where
  "is_ws c = (c \<in> set [CHR '' '', CHR 0x09, CHR 0x0A, CHR 0x0B, CHR 0x0C, CHR 0x0D])"

definition is_digit :: "char \<Rightarrow> bool" where
  "is_digit c = (c \<in> set ''0123456789'')"

definition digit_val :: "char \<Rightarrow> nat" where
  "digit_val c = of_char c - 48"

definition digits_val :: "string \<Rightarrow> nat" where
  "digits_val ds = foldl (\<lambda>acc c. 10 * acc + digit_val c) 0 ds"

definition parseInt10 :: "string \<Rightarrow> jsvalue" where
  "parseInt10 s =
     (let s1 = dropWhile is_ws s;
          neg = (case s1 of c # _ \<Rightarrow> c = CHR ''-'' | [] \<Rightarrow> False);
          s2 = (case s1 of c # r \<Rightarrow> if c = CHR ''-'' \<or> c = CHR ''+'' then r else s1 | [] \<Rightarrow> s1);
          ds = takeWhile is_digit s2
      in if ds = [] then JNaN
         else JNum (if neg then - int (digits_val ds) else int (digits_val ds)))"

section \<open>Failures\<close>

text \<open>
  Modelled from the spec: the error classes of \<open>utils/errors\<close> (\<open>AuthenticationError\<close>,
  \<open>RateLimitError\<close>, \<open>ShippoApiError\<close>), whose file is not among the sources. Section 7 of
  the specification gives the closed taxonomy: an authentication failure with a message,
  a rate-limit failure with a message and a retry-after-seconds hint, an API failure with a
  message and the numeric status code. Each constructor below records the arguments the
  client passes to the class's constructor, in order; the message of an API failure is
  whatever value the client extracted. \<open>JsError\<close> is any other \<open>Error\<close> the runtime
  throws (a \<open>TypeError\<close> of a property read or of \<open>fetch\<close>, a \<open>SyntaxError\<close> of the JSON
  decoder) with its message, \<open>Thrown\<close> a thrown value that is not an \<open>Error\<close>.
\<close>

datatype error =
    AuthenticationError string
  | RateLimitError string jsvalue
  | ShippoApiError jsvalue nat
  | JsError string
  | Thrown jsvalue

text \<open>\<open>error instanceof Error\<close> and \<open>error.message\<close>.\<close>

fun instanceof_Error :: "error \<Rightarrow> bool" where
  "instanceof_Error (Thrown v) = False"
| "instanceof_Error e = True"

fun error_message :: "error \<Rightarrow> jsvalue" where
  "error_message (AuthenticationError m) = JStr m"
| "error_message (RateLimitError m r) = JStr m"
| "error_message (ShippoApiError m s) = m"
| "error_message (JsError m) = JStr m"
| "error_message (Thrown v) = JUndefined"

text \<open>\<open>error instanceof ShippoApiError && error.statusCode === 404\<close>. Only an API failure
  carries the status of an arbitrary response; the authentication and rate-limit
  failures stand for 401/403 and 429.\<close>

fun is_api_404 :: "error \<Rightarrow> bool" where
  "is_api_404 (ShippoApiError m s) = (s = 404)"
| "is_api_404 e = False"

section \<open>Credentials\<close>

record TenantCredentials =
  apiKey :: "string option"
  baseUrl :: "string option"

type_synonym headers = "(string \<times> string) list"

definition lower :: "char \<Rightarrow> char" where
  "lower c = (let n = (of_char c :: nat) in if 65 \<le> n \<and> n \<le> 90 then char_of (n + 32) else c)"

text \<open>\<open>Headers.get(name)\<close>: names compare without case; several values of one name are
  joined by a comma and a space; an absent name gives \<open>null\<close> (here \<open>None\<close>).\<close>

definition headers_get :: "headers \<Rightarrow> string \<Rightarrow> string option" where
  "headers_get hs name =
     (let vs = map snd (filter (\<lambda>kv. map lower (fst kv) = map lower name) hs)
      in if vs = [] then None else Some (join '', '' vs))"

text \<open>\<open>x || undefined\<close> on a string or \<open>null\<close>.\<close>

definition or_undefined :: "string option \<Rightarrow> string option" where
  "or_undefined x = (case x of None \<Rightarrow> None | Some s \<Rightarrow> if s = [] then None else Some s)"

definition parseTenantCredentials :: "headers \<Rightarrow> TenantCredentials" where
  "parseTenantCredentials hs =
     \<lparr> apiKey = or_undefined (headers_get hs ''X-Shippo-API-Key''),
       baseUrl = or_undefined (headers_get hs ''X-Shippo-Base-URL'') \<rparr>"

section \<open>The client\<close>

definition API_BASE_URL :: string where
  "API_BASE_URL = ''https://api.goshippo.com''"

record ShippoClientImpl =
  credentials :: TenantCredentials
  clientBaseUrl :: string

definition createShippoClient :: "TenantCredentials \<Rightarrow> ShippoClientImpl" where
  "createShippoClient creds =
     \<lparr> credentials = creds,
       clientBaseUrl = (case or_undefined (baseUrl creds) of Some u \<Rightarrow> u | None \<Rightarrow> API_BASE_URL) \<rparr>"

definition getAuthHeaders :: "ShippoClientImpl \<Rightarrow> error + headers" where
  "getAuthHeaders c =
     (case or_undefined (apiKey (credentials c)) of
        None \<Rightarrow> Inl (AuthenticationError ''No credentials provided. Include X-Shippo-API-Key header.'')
      | Some k \<Rightarrow> Inr [(''Authorization'', ''ShippoToken '' @ k),
                       (''Content-Type'', ''application/json'')])"

subsection \<open>The runtime\<close>

text \<open>
  What the client asks of the platform: \<open>fetch\<close>, which fails (throws) or answers with a
  response, and the JSON encoder, compact for request bodies and indented by two for tool
  output. A response has its status, its headers and its body; the body is kept as what
  the JSON decoder makes of it, the decoded value or the \<open>SyntaxError\<close> it throws.
\<close>

datatype decoded = SyntaxError string | Decoded jsvalue

record response =
  status :: nat
  resp_headers :: headers
  body :: decoded

record http_request =
  url :: string
  req_method :: "string option"
  req_headers :: headers
  req_body :: "string option"

record runtime =
  fetch :: "http_request \<Rightarrow> error + response"
  JSON_stringify :: "jsvalue \<Rightarrow> string"
  JSON_stringify2 :: "jsvalue \<Rightarrow> string"

text \<open>\<open>RequestInit\<close> as the client uses it.\<close>

record RequestInit =
  init_method :: "string option"
  init_body :: "string option"
  init_headers :: "headers option"

definition no_options :: RequestInit where
  "no_options = \<lparr> init_method = None, init_body = None, init_headers = None \<rparr>"

text \<open>Object spread \<open>{...a, ...b}\<close>: a key of \<open>a\<close> keeps its place and takes the value
  \<open>b\<close> gives it, the keys only \<open>b\<close> has follow.\<close>

definition spread :: "headers \<Rightarrow> headers \<Rightarrow> headers" where
  "spread a b =
     map (\<lambda>kv. (fst kv, case map_of b (fst kv) of Some v \<Rightarrow> v | None \<Rightarrow> snd kv)) a
     @ filter (\<lambda>kv. map_of a (fst kv) = None) b"

text \<open>Property read \<open>v.name\<close> and \<open>v[name]\<close>: a \<open>TypeError\<close> on \<open>undefined\<close> and
  \<open>null\<close>, the own property of an object, the length or an element of an array or a
  string (an element when the name is the decimal form of an index in range),
  \<open>undefined\<close> otherwise.\<close>

definition index_named :: "'a list \<Rightarrow> string \<Rightarrow> 'a option" where
  "index_named xs name =
     (case filter (\<lambda>i. show_nat i = name) [0..<length xs] of
        [] \<Rightarrow> None
      | i # _ \<Rightarrow> Some (xs ! i))"

definition own_property :: "(string \<times> jsvalue) list \<Rightarrow> string \<Rightarrow> jsvalue" where
  "own_property kvs name = (case map_of kvs name of Some x \<Rightarrow> x | None \<Rightarrow> JUndefined)"

definition get_prop :: "jsvalue \<Rightarrow> string \<Rightarrow> error + jsvalue" where
  "get_prop v name =
     (case v of
        JUndefined \<Rightarrow> Inl (JsError (''Cannot read properties of undefined (reading '' @ [CHR 0x27] @ name @ [CHR 0x27] @ '')''))
      | JNull \<Rightarrow> Inl (JsError (''Cannot read properties of null (reading '' @ [CHR 0x27] @ name @ [CHR 0x27] @ '')''))
      | JObj kvs \<Rightarrow> Inr (own_property kvs name)
      | JArr xs \<Rightarrow> Inr (if name = ''length'' then JNum (int (length xs))
                        else case index_named xs name of Some x \<Rightarrow> x | None \<Rightarrow> JUndefined)
      | JStr s \<Rightarrow> Inr (if name = ''length'' then JNum (int (length s))
                       else case index_named s name of Some ch \<Rightarrow> JStr [ch] | None \<Rightarrow> JUndefined)
      | _ \<Rightarrow> Inr JUndefined)"

definition response_ok :: "response \<Rightarrow> bool" where
  "response_ok r = (200 \<le> status r \<and> status r \<le> 299)"

text \<open>The message of an API failure: the default, replaced by the first truthy one of
  \<open>detail\<close>, \<open>message\<close>, \<open>error\<close> when the body decodes and the reads do not throw.\<close>

definition api_error_message :: "response \<Rightarrow> jsvalue" where
  "api_error_message r =
     (let message = JStr (''API error: '' @ show_nat (status r)) in
      case body r of
        SyntaxError _ \<Rightarrow> message
      | Decoded errorJson \<Rightarrow>
          (case get_prop errorJson ''detail'' of
             Inl _ \<Rightarrow> message
           | Inr d \<Rightarrow>
               (case get_prop errorJson ''message'' of
                  Inl _ \<Rightarrow> message
                | Inr m \<Rightarrow>
                    (case get_prop errorJson ''error'' of
                       Inl _ \<Rightarrow> message
                     | Inr e \<Rightarrow> js_or (js_or (js_or d m) e) message))))"

text \<open>The classification of a response, in the order of the source.\<close>

definition handle_response :: "response \<Rightarrow> error + jsvalue" where
  "handle_response r =
     (if status r = 429 then
        Inl (RateLimitError ''Rate limit exceeded''
               (case or_undefined (headers_get (resp_headers r) ''Retry-After'') of
                  Some retryAfter \<Rightarrow> parseInt10 retryAfter
                | None \<Rightarrow> JNum 60))
      else if status r = 401 \<or> status r = 403 then
        Inl (AuthenticationError ''Authentication failed. Check your Shippo API key.'')
      else if \<not> response_ok r then
        Inl (ShippoApiError (api_error_message r) (status r))
      else if status r = 204 then Inr JUndefined
      else (case body r of SyntaxError m \<Rightarrow> Inl (JsError m) | Decoded v \<Rightarrow> Inr v))"

text \<open>\<open>request\<close> threads the number of network calls made so far. The authentication
  headers are built while the argument of \<open>fetch\<close> is evaluated, so a failure there comes
  before the call.\<close>

definition request ::
  "ShippoClientImpl \<Rightarrow> runtime \<Rightarrow> string \<Rightarrow> RequestInit \<Rightarrow> nat \<Rightarrow> (error + jsvalue) \<times> nat" where
  "request c rt endpoint options n =
     (case getAuthHeaders c of
        Inl e \<Rightarrow> (Inl e, n)
      | Inr auth \<Rightarrow>
          (case fetch rt \<lparr> url = clientBaseUrl c @ endpoint,
                           req_method = init_method options,
                           req_headers = spread auth (case init_headers options of Some h \<Rightarrow> h | None \<Rightarrow> []),
                           req_body = init_body options \<rparr> of
             Inl e \<Rightarrow> (Inl e, Suc n)
           | Inr r \<Rightarrow> (handle_response r, Suc n)))"

subsection \<open>The query string\<close>

text \<open>\<open>URLSearchParams\<close>: a list of name-value pairs. \<open>set\<close> overwrites the first pair
  of the name and drops its other pairs, or appends; \<open>toString\<close> is the
  \<open>application/x-www-form-urlencoded\<close> serialisation.\<close>

fun URLSearchParams_set :: "(string \<times> string) list \<Rightarrow> string \<Rightarrow> string \<Rightarrow> (string \<times> string) list" where
  "URLSearchParams_set [] k v = [(k, v)]"
| "URLSearchParams_set (p # rest) k v =
     (if fst p = k then (k, v) # filter (\<lambda>q. fst q \<noteq> k) rest
      else p # URLSearchParams_set rest k v)"

definition hex_digit :: "nat \<Rightarrow> char" where
  "hex_digit n = ''0123456789ABCDEF'' ! n"

definition url_encode_byte :: "char \<Rightarrow> string" where
  "url_encode_byte c =
     (let n = (of_char c :: nat) in
      if n = 32 then ''+''
      else if n = 42 \<or> n = 45 \<or> n = 46 \<or> (48 \<le> n \<and> n \<le> 57) \<or> (65 \<le> n \<and> n \<le> 90)
              \<or> n = 95 \<or> (97 \<le> n \<and> n \<le> 122) then [c]
      else [CHR ''%'', hex_digit (n div 16), hex_digit (n mod 16)])"

definition url_encode :: "string \<Rightarrow> string" where
  "url_encode s = concat (map url_encode_byte s)"

definition URLSearchParams_toString :: "(string \<times> string) list \<Rightarrow> string" where
  "URLSearchParams_toString q =
     join ''&'' (map (\<lambda>p. url_encode (fst p) @ ''='' @ url_encode (snd p)) q)"

definition present :: "jsvalue \<Rightarrow> bool" where
  "present v = (v \<noteq> JUndefined \<and> v \<noteq> JNull)"

definition buildQueryString :: "(string \<times> jsvalue) list option \<Rightarrow> string" where
  "buildQueryString params =
     (case params of
        None \<Rightarrow> []
      | Some entries \<Rightarrow>
          (let query = foldl (\<lambda>q kv. if present (snd kv)
                                       then URLSearchParams_set q (fst kv) (js_String (snd kv))
                                       else q) [] entries;
               str = URLSearchParams_toString query
           in if str \<noteq> [] then ''?'' @ str else []))"

subsection \<open>Operations\<close>

definition post :: "runtime \<Rightarrow> jsvalue \<Rightarrow> RequestInit" where
  "post rt input = \<lparr> init_method = Some ''POST'', init_body = Some (JSON_stringify rt input),
                     init_headers = None \<rparr>"

definition put :: "runtime \<Rightarrow> jsvalue \<Rightarrow> RequestInit" where
  "put rt input = \<lparr> init_method = Some ''PUT'', init_body = Some (JSON_stringify rt input),
                    init_headers = None \<rparr>"

definition bare :: "string \<Rightarrow> RequestInit" where
  "bare m = \<lparr> init_method = Some m, init_body = None, init_headers = None \<rparr>"

text \<open>\<open>await this.request<void>(...)\<close> with nothing returned: the value is dropped.\<close>

definition discard :: "(error + jsvalue) \<times> nat \<Rightarrow> (error + jsvalue) \<times> nat" where
  "discard r = (case fst r of Inl e \<Rightarrow> (Inl e, snd r) | Inr v \<Rightarrow> (Inr JUndefined, snd r))"

record connection_status =
  connected :: bool
  message :: jsvalue

definition testConnection ::
  "ShippoClientImpl \<Rightarrow> runtime \<Rightarrow> nat \<Rightarrow> (error + connection_status) \<times> nat" where
  "testConnection c rt n =
     (case request c rt ''/addresses?results=1'' no_options n of
        (Inr v, n') \<Rightarrow>
          (Inr \<lparr> connected = True, message = JStr ''Successfully connected to Shippo API'' \<rparr>, n')
      | (Inl e, n') \<Rightarrow>
          (Inr \<lparr> connected = False,
                 message = (if instanceof_Error e then error_message e
                            else JStr ''Connection failed'') \<rparr>, n'))"

definition createLiveRate ::
  "ShippoClientImpl \<Rightarrow> runtime \<Rightarrow> jsvalue \<Rightarrow> nat \<Rightarrow> (error + jsvalue) \<times> nat" where
  "createLiveRate c rt input n =
     (case request c rt ''/live-rates'' (post rt input) n of
        (Inl e, n') \<Rightarrow> (Inl e, n')
      | (Inr resp, n') \<Rightarrow> (get_prop resp ''results'', n'))"

definition getDefaultParcelTemplate ::
  "ShippoClientImpl \<Rightarrow> runtime \<Rightarrow> nat \<Rightarrow> (error + jsvalue) \<times> nat" where
  "getDefaultParcelTemplate c rt n =
     (case request c rt ''/live-rates/settings/parcel-template'' no_options n of
        (Inr v, n') \<Rightarrow> (Inr v, n')
      | (Inl e, n') \<Rightarrow> (if is_api_404 e then (Inr JNull, n') else (Inl e, n')))"

type_synonym params = "(string \<times> jsvalue) list option"

datatype operation =
    TestConnection
  | ListAddresses params | GetAddress string | CreateAddress jsvalue | ValidateAddress string
  | ListParcels params | GetParcel string | CreateParcel jsvalue
  | ListShipments params | GetShipment string | CreateShipment jsvalue
  | GetRate string | ListShipmentRates string "string option"
  | ListTransactions params | GetTransaction string | CreateTransaction jsvalue
  | CreateInstantTransaction jsvalue
  | GetTrackingStatus string string | RegisterTrackingWebhook jsvalue
  | CreateRefund jsvalue | GetRefund string
  | ListCarrierAccounts params | GetCarrierAccount string | CreateCarrierAccount jsvalue
  | UpdateCarrierAccount string jsvalue
  | ListCustomsItems params | GetCustomsItem string | CreateCustomsItem jsvalue
  | ListCustomsDeclarations params | GetCustomsDeclaration string
  | CreateCustomsDeclaration jsvalue
  | ListManifests params | GetManifest string | CreateManifest jsvalue
  | GetBatch string | CreateBatch jsvalue | AddShipmentsToBatch string jsvalue
  | RemoveShipmentsFromBatch string jsvalue | PurchaseBatch string
  | CreatePickup jsvalue
  | ListOrders params | GetOrder string | CreateOrder jsvalue
  | ListServiceGroups | CreateServiceGroup jsvalue | UpdateServiceGroup jsvalue
  | DeleteServiceGroup string
  | ListCarrierParcelTemplates params | GetCarrierParcelTemplate string
  | ListUserParcelTemplates params | GetUserParcelTemplate string
  | CreateUserParcelTemplate jsvalue | DeleteUserParcelTemplate string
  | CreateLiveRate jsvalue | GetDefaultParcelTemplate | UpdateDefaultParcelTemplate jsvalue
  | DeleteDefaultParcelTemplate

text \<open>One equation per method of \<open>ShippoClientImpl\<close>, in the order of the source.\<close>

primrec invoke :: "ShippoClientImpl \<Rightarrow> runtime \<Rightarrow> operation \<Rightarrow> nat \<Rightarrow> (error + jsvalue) \<times> nat" where
  "invoke c rt TestConnection n =
     (case testConnection c rt n of
        (Inl e, n') \<Rightarrow> (Inl e, n')
      | (Inr s, n') \<Rightarrow>
          (Inr (JObj [(''connected'', JBool (connected s)), (''message'', message s)]), n'))"
| "invoke c rt (ListAddresses ps) n = request c rt (''/addresses'' @ buildQueryString ps) no_options n"
| "invoke c rt (GetAddress i) n = request c rt (''/addresses/'' @ i) no_options n"
| "invoke c rt (CreateAddress input) n = request c rt ''/addresses'' (post rt input) n"
| "invoke c rt (ValidateAddress i) n = request c rt (''/addresses/'' @ i @ ''/validate'') no_options n"
| "invoke c rt (ListParcels ps) n = request c rt (''/parcels'' @ buildQueryString ps) no_options n"
| "invoke c rt (GetParcel i) n = request c rt (''/parcels/'' @ i) no_options n"
| "invoke c rt (CreateParcel input) n = request c rt ''/parcels'' (post rt input) n"
| "invoke c rt (ListShipments ps) n = request c rt (''/shipments'' @ buildQueryString ps) no_options n"
| "invoke c rt (GetShipment i) n = request c rt (''/shipments/'' @ i) no_options n"
| "invoke c rt (CreateShipment input) n = request c rt ''/shipments'' (post rt input) n"
| "invoke c rt (GetRate i) n = request c rt (''/rates/'' @ i) no_options n"
| "invoke c rt (ListShipmentRates i currency) n =
     request c rt (case or_undefined currency of
                     Some cur \<Rightarrow> ''/shipments/'' @ i @ ''/rates/'' @ cur
                   | None \<Rightarrow> ''/shipments/'' @ i @ ''/rates'') no_options n"
| "invoke c rt (ListTransactions ps) n = request c rt (''/transactions'' @ buildQueryString ps) no_options n"
| "invoke c rt (GetTransaction i) n = request c rt (''/transactions/'' @ i) no_options n"
| "invoke c rt (CreateTransaction input) n = request c rt ''/transactions'' (post rt input) n"
| "invoke c rt (CreateInstantTransaction input) n = request c rt ''/transactions'' (post rt input) n"
| "invoke c rt (GetTrackingStatus carrier num) n =
     request c rt (''/tracks/'' @ carrier @ ''/'' @ num) no_options n"
| "invoke c rt (RegisterTrackingWebhook input) n = request c rt ''/tracks'' (post rt input) n"
| "invoke c rt (CreateRefund input) n = request c rt ''/refunds'' (post rt input) n"
| "invoke c rt (GetRefund i) n = request c rt (''/refunds/'' @ i) no_options n"
| "invoke c rt (ListCarrierAccounts ps) n =
     request c rt (''/carrier_accounts'' @ buildQueryString ps) no_options n"
| "invoke c rt (GetCarrierAccount i) n = request c rt (''/carrier_accounts/'' @ i) no_options n"
| "invoke c rt (CreateCarrierAccount input) n = request c rt ''/carrier_accounts'' (post rt input) n"
| "invoke c rt (UpdateCarrierAccount i input) n =
     request c rt (''/carrier_accounts/'' @ i) (put rt input) n"
| "invoke c rt (ListCustomsItems ps) n =
     request c rt (''/customs/items'' @ buildQueryString ps) no_options n"
| "invoke c rt (GetCustomsItem i) n = request c rt (''/customs/items/'' @ i) no_options n"
| "invoke c rt (CreateCustomsItem input) n = request c rt ''/customs/items'' (post rt input) n"
| "invoke c rt (ListCustomsDeclarations ps) n =
     request c rt (''/customs/declarations'' @ buildQueryString ps) no_options n"
| "invoke c rt (GetCustomsDeclaration i) n =
     request c rt (''/customs/declarations/'' @ i) no_options n"
| "invoke c rt (CreateCustomsDeclaration input) n =
     request c rt ''/customs/declarations'' (post rt input) n"
| "invoke c rt (ListManifests ps) n = request c rt (''/manifests'' @ buildQueryString ps) no_options n"
| "invoke c rt (GetManifest i) n = request c rt (''/manifests/'' @ i) no_options n"
| "invoke c rt (CreateManifest input) n = request c rt ''/manifests'' (post rt input) n"
| "invoke c rt (GetBatch i) n = request c rt (''/batches/'' @ i) no_options n"
| "invoke c rt (CreateBatch input) n = request c rt ''/batches'' (post rt input) n"
| "invoke c rt (AddShipmentsToBatch i input) n =
     request c rt (''/batches/'' @ i @ ''/add_shipments'') (post rt input) n"
| "invoke c rt (RemoveShipmentsFromBatch i input) n =
     request c rt (''/batches/'' @ i @ ''/remove_shipments'') (post rt input) n"
| "invoke c rt (PurchaseBatch i) n = request c rt (''/batches/'' @ i @ ''/purchase'') (bare ''POST'') n"
| "invoke c rt (CreatePickup input) n = request c rt ''/pickups'' (post rt input) n"
| "invoke c rt (ListOrders ps) n = request c rt (''/orders'' @ buildQueryString ps) no_options n"
| "invoke c rt (GetOrder i) n = request c rt (''/orders/'' @ i) no_options n"
| "invoke c rt (CreateOrder input) n = request c rt ''/orders'' (post rt input) n"
| "invoke c rt ListServiceGroups n = request c rt ''/service-groups'' no_options n"
| "invoke c rt (CreateServiceGroup input) n = request c rt ''/service-groups'' (post rt input) n"
| "invoke c rt (UpdateServiceGroup input) n = request c rt ''/service-groups'' (put rt input) n"
| "invoke c rt (DeleteServiceGroup i) n =
     discard (request c rt (''/service-groups/'' @ i) (bare ''DELETE'') n)"
| "invoke c rt (ListCarrierParcelTemplates ps) n =
     request c rt (''/parcel-templates'' @ buildQueryString ps) no_options n"
| "invoke c rt (GetCarrierParcelTemplate t) n = request c rt (''/parcel-templates/'' @ t) no_options n"
| "invoke c rt (ListUserParcelTemplates ps) n =
     request c rt (''/user-parcel-templates'' @ buildQueryString ps) no_options n"
| "invoke c rt (GetUserParcelTemplate i) n =
     request c rt (''/user-parcel-templates/'' @ i) no_options n"
| "invoke c rt (CreateUserParcelTemplate input) n =
     request c rt ''/user-parcel-templates'' (post rt input) n"
| "invoke c rt (DeleteUserParcelTemplate i) n =
     discard (request c rt (''/user-parcel-templates/'' @ i) (bare ''DELETE'') n)"
| "invoke c rt (CreateLiveRate input) n = createLiveRate c rt input n"
| "invoke c rt GetDefaultParcelTemplate n = getDefaultParcelTemplate c rt n"
| "invoke c rt (UpdateDefaultParcelTemplate input) n =
     request c rt ''/live-rates/settings/parcel-template'' (put rt input) n"
| "invoke c rt DeleteDefaultParcelTemplate n =
     discard (request c rt ''/live-rates/settings/parcel-template'' (bare ''DELETE'') n)"

section \<open>Formatting tool responses\<close>

record text_content =
  content_type :: string
  "text" :: string

record ToolResponse =
  content :: "text_content list"
  isError :: "bool option"

datatype ResponseFormat = Json | Markdown

definition text_response :: "string \<Rightarrow> ToolResponse" where
  "text_response t = \<lparr> content = [\<lparr> content_type = ''text'', text = t \<rparr>], isError = None \<rparr>"

subsection \<open>Template literals that may throw\<close>

text \<open>A formatter reads properties of values it did not check, so each piece of text is
  a string or the \<open>TypeError\<close> of the first read that throws.\<close>

definition and_then :: "error + 'a \<Rightarrow> ('a \<Rightarrow> error + 'b) \<Rightarrow> error + 'b" where
  "and_then m f = (case m of Inl e \<Rightarrow> Inl e | Inr x \<Rightarrow> f x)"

fun sequence :: "(error + 'a) list \<Rightarrow> error + 'a list" where
  "sequence [] = Inr []"
| "sequence (m # ms) = and_then m (\<lambda>x. and_then (sequence ms) (\<lambda>xs. Inr (x # xs)))"

definition nl :: string where
  "nl = [CHR 0x0A]"

definition lit :: "string \<Rightarrow> error + string" where
  "lit s = Inr s"

definition cat :: "(error + string) list \<Rightarrow> error + string" where
  "cat ms = and_then (sequence ms) (\<lambda>ss. Inr (concat ss))"

text \<open>\<open>${v.name}\<close>, \<open>${v.a.b}\<close>, \<open>${v.name || d}\<close> and \<open>${v.name ? 'Yes' : 'No'}\<close>.\<close>

definition tpl :: "jsvalue \<Rightarrow> string \<Rightarrow> error + string" where
  "tpl v name = and_then (get_prop v name) (\<lambda>x. Inr (js_String x))"

definition tpl2 :: "jsvalue \<Rightarrow> string \<Rightarrow> string \<Rightarrow> error + string" where
  "tpl2 v a b = and_then (get_prop v a) (\<lambda>x. tpl x b)"

definition tpl_or :: "jsvalue \<Rightarrow> string \<Rightarrow> string \<Rightarrow> error + string" where
  "tpl_or v name d = and_then (get_prop v name) (\<lambda>x. Inr (js_String (js_or x (JStr d))))"

definition yes_no :: "jsvalue \<Rightarrow> string \<Rightarrow> error + string" where
  "yes_no v name = and_then (get_prop v name) (\<lambda>x. Inr (if truthy x then ''Yes'' else ''No''))"

text \<open>A row \<open>| a | b | c |\<close>, and a table: the two heading lines, then one row for each
  item, joined by line feeds.\<close>

definition table_row :: "(error + string) list \<Rightarrow> error + string" where
  "table_row cells = and_then (sequence cells) (\<lambda>ss. Inr (''| '' @ join '' | '' ss @ '' |''))"

definition table :: "string \<Rightarrow> string \<Rightarrow> (jsvalue \<Rightarrow> error + string) \<Rightarrow> jsvalue list \<Rightarrow> error + string" where
  "table heading rule row items =
     and_then (sequence (map row items)) (\<lambda>rows. Inr (join nl (heading # rule # rows)))"

subsection \<open>The entity tables\<close>

definition formatAddressesTable :: "jsvalue list \<Rightarrow> error + string" where
  "formatAddressesTable addresses =
     table ''| ID | Name | Address | City | State | ZIP | Country |'' ''|---|---|---|---|---|---|---|''
       (\<lambda>addr. table_row [tpl addr ''object_id'', tpl addr ''name'', tpl addr ''street1'',
                           tpl addr ''city'', tpl addr ''state'', tpl addr ''zip'', tpl addr ''country''])
       addresses"

definition formatParcelsTable :: "jsvalue list \<Rightarrow> error + string" where
  "formatParcelsTable parcels =
     table ''| ID | Dimensions (LxWxH) | Weight | Template |'' ''|---|---|---|---|''
       (\<lambda>parcel.
          and_then (cat [tpl parcel ''length'', lit ''x'', tpl parcel ''width'', lit ''x'',
                         tpl parcel ''height'', lit '' '', tpl parcel ''distance_unit'']) (\<lambda>dims.
          and_then (cat [tpl parcel ''weight'', lit '' '', tpl parcel ''mass_unit'']) (\<lambda>weight.
          table_row [tpl parcel ''object_id'', lit dims, lit weight, tpl_or parcel ''template'' ''-''])))
       parcels"

definition formatShipmentsTable :: "jsvalue list \<Rightarrow> error + string" where
  "formatShipmentsTable shipments =
     table ''| ID | Status | From | To | Parcels | Rates |'' ''|---|---|---|---|---|---|''
       (\<lambda>shipment.
          and_then (cat [tpl2 shipment ''address_from'' ''city'', lit '', '',
                         tpl2 shipment ''address_from'' ''state'']) (\<lambda>from.
          and_then (cat [tpl2 shipment ''address_to'' ''city'', lit '', '',
                         tpl2 shipment ''address_to'' ''state'']) (\<lambda>to.
          table_row [tpl shipment ''object_id'', tpl shipment ''status'', lit from, lit to,
                     tpl2 shipment ''parcels'' ''length'', tpl2 shipment ''rates'' ''length''])))
       shipments"

definition formatRatesTable :: "jsvalue list \<Rightarrow> error + string" where
  "formatRatesTable rates =
     table ''| ID | Provider | Service | Amount | Est. Days |'' ''|---|---|---|---|---|''
       (\<lambda>rate. table_row [tpl rate ''object_id'', tpl rate ''provider'',
                           tpl2 rate ''servicelevel'' ''name'',
                           cat [tpl rate ''currency'', lit '' '', tpl rate ''amount''],
                           tpl_or rate ''estimated_days'' ''-''])
       rates"

definition formatTransactionsTable :: "jsvalue list \<Rightarrow> error + string" where
  "formatTransactionsTable transactions =
     table ''| ID | Status | Tracking # | Tracking Status |'' ''|---|---|---|---|''
       (\<lambda>tx. table_row [tpl tx ''object_id'', tpl tx ''status'', tpl_or tx ''tracking_number'' ''-'',
                         tpl tx ''tracking_status''])
       transactions"

definition formatCarrierAccountsTable :: "jsvalue list \<Rightarrow> error + string" where
  "formatCarrierAccountsTable accounts =
     table ''| ID | Carrier | Account ID | Active |'' ''|---|---|---|---|''
       (\<lambda>acc. table_row [tpl acc ''object_id'', tpl acc ''carrier'', tpl acc ''account_id'',
                          yes_no acc ''active''])
       accounts"

definition formatCustomsItemsTable :: "jsvalue list \<Rightarrow> error + string" where
  "formatCustomsItemsTable items =
     table ''| ID | Description | Qty | Value | Origin |'' ''|---|---|---|---|---|''
       (\<lambda>item. table_row [tpl item ''object_id'', tpl item ''description'', tpl item ''quantity'',
                           cat [tpl item ''value_currency'', lit '' '', tpl item ''value_amount''],
                           tpl item ''origin_country''])
       items"

definition formatCustomsDeclarationsTable :: "jsvalue list \<Rightarrow> error + string" where
  "formatCustomsDeclarationsTable declarations =
     table ''| ID | Contents Type | Items | Certify |'' ''|---|---|---|---|''
       (\<lambda>decl. table_row [tpl decl ''object_id'', tpl decl ''contents_type'',
                           tpl2 decl ''items'' ''length'', yes_no decl ''certify''])
       declarations"

definition formatManifestsTable :: "jsvalue list \<Rightarrow> error + string" where
  "formatManifestsTable manifests =
     table ''| ID | Status | Shipment Date | Transactions |'' ''|---|---|---|---|''
       (\<lambda>manifest. table_row [tpl manifest ''object_id'', tpl manifest ''status'',
                               tpl manifest ''shipment_date'', tpl2 manifest ''transactions'' ''length''])
       manifests"

definition formatOrdersTable :: "jsvalue list \<Rightarrow> error + string" where
  "formatOrdersTable orders =
     table ''| ID | Order # | Status | Total | Items |'' ''|---|---|---|---|---|''
       (\<lambda>order. table_row [tpl order ''object_id'', tpl order ''order_number'',
                            tpl order ''order_status'',
                            cat [tpl_or order ''currency'' [], lit '' '', tpl_or order ''total_price'' ''-''],
                            tpl2 order ''line_items'' ''length''])
       orders"

definition formatServiceGroupsTable :: "jsvalue list \<Rightarrow> error + string" where
  "formatServiceGroupsTable groups =
     table ''| ID | Name | Type | Active | Services |'' ''|---|---|---|---|---|''
       (\<lambda>group. table_row [tpl group ''object_id'', tpl group ''name'', tpl group ''type'',
                            yes_no group ''is_active'', tpl2 group ''service_levels'' ''length''])
       groups"

definition formatCarrierParcelTemplatesTable :: "jsvalue list \<Rightarrow> error + string" where
  "formatCarrierParcelTemplatesTable templates =
     table ''| Token | Carrier | Name | Dimensions |'' ''|---|---|---|---|''
       (\<lambda>template.
          and_then (cat [tpl template ''length'', lit ''x'', tpl template ''width'', lit ''x'',
                         tpl template ''height'', lit '' '', tpl template ''distance_unit'']) (\<lambda>dims.
          table_row [tpl template ''token'', tpl template ''carrier'', tpl template ''name'', lit dims]))
       templates"

definition formatUserParcelTemplatesTable :: "jsvalue list \<Rightarrow> error + string" where
  "formatUserParcelTemplatesTable templates =
     table ''| ID | Name | Dimensions | Weight |'' ''|---|---|---|---|''
       (\<lambda>template.
          and_then (cat [tpl template ''length'', lit ''x'', tpl template ''width'', lit ''x'',
                         tpl template ''height'', lit '' '', tpl template ''distance_unit'']) (\<lambda>dims.
          and_then (and_then (get_prop template ''weight'') (\<lambda>w.
                      if truthy w then cat [tpl template ''weight'', lit '' '', tpl template ''weight_unit'']
                      else lit ''-'')) (\<lambda>weight.
          table_row [tpl template ''object_id'', tpl template ''name'', lit dims, lit weight])))
       templates"

subsection \<open>The generic table\<close>

text \<open>\<open>Object.keys(v)\<close>, \<open>xs[i]\<close> (\<open>undefined\<close> out of range) and \<open>v ?? d\<close>.\<close>

definition Object_keys :: "jsvalue \<Rightarrow> error + string list" where
  "Object_keys v =
     (case v of
        JUndefined \<Rightarrow> Inl (JsError ''Cannot convert undefined or null to object'')
      | JNull \<Rightarrow> Inl (JsError ''Cannot convert undefined or null to object'')
      | JObj kvs \<Rightarrow> Inr (map fst kvs)
      | JArr xs \<Rightarrow> Inr (map show_nat [0..<length xs])
      | JStr s \<Rightarrow> Inr (map show_nat [0..<length s])
      | _ \<Rightarrow> Inr [])"

definition js_index :: "jsvalue list \<Rightarrow> nat \<Rightarrow> jsvalue" where
  "js_index xs i = (if i < length xs then xs ! i else JUndefined)"

definition nullish_or :: "jsvalue \<Rightarrow> jsvalue \<Rightarrow> jsvalue" where
  "nullish_or v d = (if v = JNull \<or> v = JUndefined then d else v)"

definition formatGenericTable :: "jsvalue list \<Rightarrow> error + string" where
  "formatGenericTable items =
     (if length items = 0 then Inr ''_No items_''
      else
        let first = js_index items 0 in
        and_then (Object_keys first) (\<lambda>all_keys.
          let keys = take 5 all_keys in
          table (''| '' @ join '' | '' keys @ '' |'')
                (''|'' @ join ''|'' (map (\<lambda>k. ''---'') keys) @ ''|'')
                (\<lambda>record. table_row (map (\<lambda>k. and_then (get_prop record k)
                                                  (\<lambda>v. Inr (js_String (nullish_or v (JStr ''-''))))) keys))
                items))"

subsection \<open>Paginated responses\<close>

record PaginatedResponse =
  count :: jsvalue
  "next" :: jsvalue
  previous :: jsvalue
  results :: "jsvalue list"

text \<open>The type guard \<open>isPaginatedResponse\<close>: an object with a property \<open>results\<close> that is
  an array; the narrowed value is returned when the guard holds.\<close>

definition as_paginated :: "jsvalue \<Rightarrow> PaginatedResponse option" where
  "as_paginated data =
     (case data of
        JObj kvs \<Rightarrow>
          (case map_of kvs ''results'' of
             Some (JArr rs) \<Rightarrow> Some \<lparr> count = own_property kvs ''count'',
                                       next = own_property kvs ''next'',
                                       previous = own_property kvs ''previous'',
                                       results = rs \<rparr>
           | _ \<Rightarrow> None)
      | _ \<Rightarrow> None)"

definition isPaginatedResponse :: "jsvalue \<Rightarrow> bool" where
  "isPaginatedResponse data = (as_paginated data \<noteq> None)"

text \<open>\<open>str.charAt(0).toUpperCase() + str.slice(1)\<close>, on the letters \<open>a\<close> to \<open>z\<close>; the
  entity types and the keys it is applied to are ASCII.\<close>

definition upper :: "char \<Rightarrow> char" where
  "upper c = (let n = (of_char c :: nat) in if 97 \<le> n \<and> n \<le> 122 then char_of (n - 32) else c)"

definition capitalize :: "string \<Rightarrow> string" where
  "capitalize str = (case str of [] \<Rightarrow> [] | c # cs \<Rightarrow> upper c # cs)"

text \<open>The \<open>switch\<close> on the entity type.\<close>

definition entity_table :: "string \<Rightarrow> jsvalue list \<Rightarrow> error + string" where
  "entity_table entityType rs =
     (if entityType = ''addresses'' then formatAddressesTable rs
      else if entityType = ''parcels'' then formatParcelsTable rs
      else if entityType = ''shipments'' then formatShipmentsTable rs
      else if entityType = ''rates'' then formatRatesTable rs
      else if entityType = ''transactions'' then formatTransactionsTable rs
      else if entityType = ''carrier_accounts'' then formatCarrierAccountsTable rs
      else if entityType = ''customs_items'' then formatCustomsItemsTable rs
      else if entityType = ''customs_declarations'' then formatCustomsDeclarationsTable rs
      else if entityType = ''manifests'' then formatManifestsTable rs
      else if entityType = ''orders'' then formatOrdersTable rs
      else if entityType = ''service_groups'' then formatServiceGroupsTable rs
      else if entityType = ''carrier_parcel_templates'' then formatCarrierParcelTemplatesTable rs
      else if entityType = ''user_parcel_templates'' then formatUserParcelTemplatesTable rs
      else formatGenericTable rs)"

text \<open>The lines pushed before the items: the heading, a blank line, the counts, the
  note on a next page when there is one, a blank line.\<close>

definition paginated_head :: "PaginatedResponse \<Rightarrow> string \<Rightarrow> string list" where
  "paginated_head data entityType =
     [''## '' @ capitalize entityType,
      [],
      ''**Total:** '' @ js_String (count data) @ '' | **Showing:** '' @ show_nat (length (results data))]
     @ (if truthy (next data) then [''**Next page available**''] else [])
     @ [[]]"

definition formatPaginatedAsMarkdown :: "PaginatedResponse \<Rightarrow> string \<Rightarrow> error + string" where
  "formatPaginatedAsMarkdown data entityType =
     (let lines = paginated_head data entityType in
      if length (results data) = 0 then Inr (join nl (lines @ [''_No items found._'']))
      else and_then (entity_table entityType (results data))
             (\<lambda>t. Inr (join nl (lines @ [t]))))"

subsection \<open>Arrays, single objects and the dispatch\<close>

text \<open>\<open>v.a?.b\<close>: \<open>undefined\<close> when \<open>v.a\<close> is \<open>null\<close> or \<open>undefined\<close>.\<close>

definition opt_chain :: "jsvalue \<Rightarrow> string \<Rightarrow> string \<Rightarrow> error + jsvalue" where
  "opt_chain v a b =
     and_then (get_prop v a) (\<lambda>x. if x = JNull \<or> x = JUndefined then Inr JUndefined else get_prop x b)"

definition formatTrackingHistoryAsMarkdown :: "jsvalue list \<Rightarrow> error + string" where
  "formatTrackingHistoryAsMarkdown events =
     and_then
       (sequence (map (\<lambda>event.
          and_then (opt_chain event ''tracking_status'' ''status'') (\<lambda>st.
          and_then (opt_chain event ''tracking_status'' ''status_date'') (\<lambda>date.
          and_then (opt_chain event ''tracking_status'' ''status_details'') (\<lambda>details.
            Inr [''### '' @ js_String (js_or st (JStr ''Unknown'')),
                 ''**Date:** '' @ js_String (js_or date (JStr ''-'')),
                 ''**Details:** '' @ js_String (js_or details (JStr ''-'')),
                 []])))) events))
       (\<lambda>blocks. Inr (join nl (concat blocks)))"

definition formatArrayAsMarkdown :: "jsvalue list \<Rightarrow> string \<Rightarrow> error + string" where
  "formatArrayAsMarkdown data entityType =
     (if entityType = ''rates'' then formatRatesTable data
      else if entityType = ''tracking_history'' then formatTrackingHistoryAsMarkdown data
      else formatGenericTable data)"

text \<open>\<open>key.split('_')\<close> and \<open>entityType.replace(/s$/, '')\<close>.\<close>

fun split_on :: "char \<Rightarrow> string \<Rightarrow> string list" where
  "split_on c [] = [[]]"
| "split_on c (x # xs) =
     (if x = c then [] # split_on c xs
      else case split_on c xs of w # ws \<Rightarrow> (x # w) # ws | [] \<Rightarrow> [[x]])"

definition strip_final_s :: "string \<Rightarrow> string" where
  "strip_final_s str = (if str \<noteq> [] \<and> last str = CHR ''s'' then butlast str else str)"

definition formatKey :: "string \<Rightarrow> string" where
  "formatKey key = join '' '' (map capitalize (split_on CHR ''_'' key))"

definition formatObjectAsMarkdown :: "runtime \<Rightarrow> (string \<times> jsvalue) list \<Rightarrow> string \<Rightarrow> string" where
  "formatObjectAsMarkdown rt data entityType =
     join nl
       ([''## '' @ capitalize (strip_final_s entityType), []]
        @ concat (map (\<lambda>kv.
            if snd kv = JNull \<or> snd kv = JUndefined then []
            else (case snd kv of
                    JObj _ \<Rightarrow> [''**'' @ formatKey (fst kv) @ '':**'', ''```json'',
                               JSON_stringify2 rt (snd kv), ''```'']
                  | JArr _ \<Rightarrow> [''**'' @ formatKey (fst kv) @ '':**'', ''```json'',
                               JSON_stringify2 rt (snd kv), ''```'']
                  | _ \<Rightarrow> [''**'' @ formatKey (fst kv) @ '':** '' @ js_String (snd kv)])) data))"

definition formatAsMarkdown :: "runtime \<Rightarrow> jsvalue \<Rightarrow> string \<Rightarrow> error + string" where
  "formatAsMarkdown rt data entityType =
     (case as_paginated data of
        Some p \<Rightarrow> formatPaginatedAsMarkdown p entityType
      | None \<Rightarrow>
          (case data of
             JArr xs \<Rightarrow> formatArrayAsMarkdown xs entityType
           | JObj kvs \<Rightarrow> Inr (formatObjectAsMarkdown rt kvs entityType)
           | _ \<Rightarrow> Inr (js_String data)))"

definition formatResponse :: "runtime \<Rightarrow> jsvalue \<Rightarrow> ResponseFormat \<Rightarrow> string \<Rightarrow> error + ToolResponse" where
  "formatResponse rt data format entityType =
     (if format = Markdown
      then and_then (formatAsMarkdown rt data entityType) (\<lambda>t. Inr (text_response t))
      else Inr (text_response (JSON_stringify2 rt data)))"

subsection \<open>Failures at the tool boundary\<close>

text \<open>
  Modelled from the spec: \<open>formatErrorForLogging\<close> and the \<open>retryable\<close> flag of an API
  failure belong to \<open>utils/errors\<close>, which is not among the sources; they are taken as
  given. \<open>retryable e\<close> is read only of an instance of \<open>ShippoApiError\<close>. Whether the
  authentication and rate-limit failures derive from \<open>ShippoApiError\<close> is not visible;
  they are counted as instances, which loses nothing as their flag is a parameter.
\<close>

record errors_module =
  formatErrorForLogging :: "error \<Rightarrow> jsvalue"
  retryable :: "error \<Rightarrow> bool"

fun instanceof_ShippoApiError :: "error \<Rightarrow> bool" where
  "instanceof_ShippoApiError (AuthenticationError m) = True"
| "instanceof_ShippoApiError (RateLimitError m r) = True"
| "instanceof_ShippoApiError (ShippoApiError m s) = True"
| "instanceof_ShippoApiError e = False"

fun thrown_value :: "error \<Rightarrow> jsvalue" where
  "thrown_value (Thrown v) = v"
| "thrown_value e = error_message e"

definition error_line :: "errors_module \<Rightarrow> error \<Rightarrow> string" where
  "error_line em e =
     (if instanceof_ShippoApiError e then
        ''Error: '' @ js_String (error_message e) @ (if retryable em e then '' (retryable)'' else [])
      else if instanceof_Error e then ''Error: '' @ js_String (error_message e)
      else ''Error: '' @ js_String (thrown_value e))"

definition formatError :: "errors_module \<Rightarrow> runtime \<Rightarrow> error \<Rightarrow> ToolResponse" where
  "formatError em rt e =
     (let errorInfo = formatErrorForLogging em e;
          message = error_line em e
      in \<lparr> content = [\<lparr> content_type = ''text'',
                          text = JSON_stringify2 rt (JObj [(''error'', JStr message),
                                                           (''details'', errorInfo)]) \<rparr>],
            isError = Some True \<rparr>)"

text \<open>Every tool handler is \<open>try { ... } catch (error) { return formatError(error); }\<close>
  around a client call and the rendering of its result.\<close>

definition try_catch :: "errors_module \<Rightarrow> runtime \<Rightarrow> error + ToolResponse \<Rightarrow> error + ToolResponse" where
  "try_catch em rt attempt = (case attempt of Inl e \<Rightarrow> Inr (formatError em rt e) | Inr r \<Rightarrow> Inr r)"

subsection \<open>A tool handler\<close>

text \<open>\<open>shippo_list_addresses\<close>: list the addresses with the page size and page number of
  the arguments, render the result in the format asked for; any failure of the two is
  caught and formatted.\<close>

definition shippo_list_addresses ::
  "errors_module \<Rightarrow> ShippoClientImpl \<Rightarrow> runtime \<Rightarrow> jsvalue \<Rightarrow> jsvalue \<Rightarrow> ResponseFormat \<Rightarrow> nat
   \<Rightarrow> (error + ToolResponse) \<times> nat" where
  "shippo_list_addresses em c rt page_size page format n =
     (case invoke c rt (ListAddresses (Some [(''results'', page_size), (''page'', page)])) n of
        (outcome, n') \<Rightarrow>
          (try_catch em rt
             (and_then outcome (\<lambda>result. formatResponse rt result format ''addresses'')), n'))"

section \<open>Concrete clients and remotes\<close>

text \<open>A runtime whose remote gives one fixed answer to every call, and a client with a key;
  the examples below run on them.\<close>

definition demo_runtime :: "error + response \<Rightarrow> runtime" where
  "demo_runtime answer =
     \<lparr> fetch = (\<lambda>req. answer), JSON_stringify = js_String, JSON_stringify2 = js_String \<rparr>"

definition demo_client :: ShippoClientImpl where
  "demo_client = createShippoClient \<lparr> apiKey = Some ''shippo_test_key'', baseUrl = None \<rparr>"

definition live_rates_body :: jsvalue where
  "live_rates_body =
     JObj [(''results'', JArr [JObj [(''title'', JStr ''USPS Priority''), (''amount'', JStr ''7.50'')]])]"

definition demo_errors :: errors_module where
  "demo_errors = \<lparr> formatErrorForLogging = (\<lambda>e. JObj [(''message'', error_message e)]),
                   retryable = (\<lambda>e. False) \<rparr>"

definition server_error :: response where
  "server_error = \<lparr> status = 500, resp_headers = [],
                    body = Decoded (JObj [(''detail'', JStr ''Internal error'')]) \<rparr>"

section \<open>The request primitive\<close>

lemma request_with_key:
  "or_undefined (apiKey (credentials c)) = Some k \<Longrightarrow>
   request c rt endpoint options n =
     (case fetch rt \<lparr> url = clientBaseUrl c @ endpoint, req_method = init_method options,
                      req_headers = spread [(''Authorization'', ''ShippoToken '' @ k),
                                            (''Content-Type'', ''application/json'')]
                                      (case init_headers options of Some h \<Rightarrow> h | None \<Rightarrow> []),
                      req_body = init_body options \<rparr> of
        Inl e \<Rightarrow> (Inl e, Suc n) | Inr r \<Rightarrow> (handle_response r, Suc n))"
  by (simp add: request_def getAuthHeaders_def)

lemma request_no_key:
  "or_undefined (apiKey (credentials c)) = None \<Longrightarrow>
   request c rt endpoint options n =
     (Inl (AuthenticationError ''No credentials provided. Include X-Shippo-API-Key header.''), n)"
  by (simp add: request_def getAuthHeaders_def)

lemma demo_client_key: "or_undefined (apiKey (credentials demo_client)) = Some ''shippo_test_key''"
  by (simp add: demo_client_def createShippoClient_def or_undefined_def)

subsection \<open>Rate limiting\<close>

text \<open>
  C1. A response with status 429 is turned into a rate-limit failure whose hint is the
  integer read from \<open>Retry-After\<close>, and 60 when the header is absent or not a number.
  The code takes 60 only for an absent (or empty) header: a header that is present but
  holds no leading integer, such as \<open>NaN\<close> or an HTTP date, goes through
  \<open>Number.parseInt\<close> and the hint is \<open>NaN\<close>. The header \<open>120\<close> gives 120 and an
  absent header gives 60, as stated.
\<close>

theorem retry_after_non_numeric_gives_NaN:
  "request demo_client
     (demo_runtime (Inr \<lparr> status = 429, resp_headers = [(''Retry-After'', ''NaN'')],
                          body = Decoded JNull \<rparr>))
     ''/addresses'' no_options 0
   = (Inl (RateLimitError ''Rate limit exceeded'' JNaN), 1) \<and>
   request demo_client
     (demo_runtime (Inr \<lparr> status = 429,
                          resp_headers = [(''Retry-After'', ''Wed, 21 Oct 2015 07:28:00 GMT'')],
                          body = Decoded JNull \<rparr>))
     ''/addresses'' no_options 0
   = (Inl (RateLimitError ''Rate limit exceeded'' JNaN), 1) \<and>
   request demo_client
     (demo_runtime (Inr \<lparr> status = 429, resp_headers = [(''Retry-After'', ''120'')],
                          body = Decoded JNull \<rparr>))
     ''/addresses'' no_options 0
   = (Inl (RateLimitError ''Rate limit exceeded'' (JNum 120)), 1) \<and>
   request demo_client
     (demo_runtime (Inr \<lparr> status = 429, resp_headers = [], body = Decoded JNull \<rparr>))
     ''/addresses'' no_options 0
   = (Inl (RateLimitError ''Rate limit exceeded'' (JNum 60)), 1)"
  by code_simp

subsection \<open>The message of an API failure\<close>

lemma api_error_message_object:
  "body r = Decoded (JObj kvs) \<Longrightarrow>
   api_error_message r =
     (if truthy (own_property kvs ''detail'') then own_property kvs ''detail''
      else if truthy (own_property kvs ''message'') then own_property kvs ''message''
      else if truthy (own_property kvs ''error'') then own_property kvs ''error''
      else JStr (''API error: '' @ show_nat (status r)))"
  by (simp add: api_error_message_def get_prop_def js_or_def Let_def)

lemma show_nat_digits: "set (show_nat n) \<subseteq> set ''0123456789''"
proof (induction n rule: show_nat.induct)
  case (1 n)
  have d: "''0123456789'' ! k \<in> set ''0123456789''" if "k < 10" for k
    using that by (intro nth_mem) simp
  show ?case
  proof (cases "n < 10")
    case True
    then show ?thesis using d[of n] by (subst show_nat.simps) simp
  next
    case False
    have "n mod 10 < 10" by simp
    from d[OF this] 1[OF False] False show ?thesis
      by (subst show_nat.simps) simp
  qed
qed

lemma index_named_non_digit:
  assumes "c \<in> set name" and "c \<notin> set ''0123456789''"
  shows "index_named xs name = None"
proof -
  have "show_nat i \<noteq> name" for i using show_nat_digits[of i] assms by auto
  then have "filter (\<lambda>i. show_nat i = name) [0..<length xs] = []" by simp
  then show ?thesis by (simp add: index_named_def)
qed

lemma get_prop_fields_of_non_object:
  assumes "\<forall>kvs. v \<noteq> JObj kvs" and "name \<in> {''detail'', ''message'', ''error''}"
  shows "get_prop v name = Inr JUndefined \<or> (\<exists>e. get_prop v name = Inl e)"
proof -
  have n1: "index_named xs name = None" for xs :: "jsvalue list"
    using assms(2) by (auto intro: index_named_non_digit[where c = "CHR ''e''"])
  have n2: "index_named s name = None" for s :: string
    using assms(2) by (auto intro: index_named_non_digit[where c = "CHR ''e''"])
  have l: "name \<noteq> ''length''" using assms(2) by auto
  show ?thesis using assms(1) l by (cases v) (simp_all add: get_prop_def n1 n2)
qed

lemma api_error_message_other:
  assumes "body r = Decoded v" and "\<forall>kvs. v \<noteq> JObj kvs"
  shows "api_error_message r = JStr (''API error: '' @ show_nat (status r))"
proof -
  note g = get_prop_fields_of_non_object[OF assms(2)]
  from g[of "''detail''"] g[of "''message''"] g[of "''error''"] assms(1)
  show ?thesis
    by (auto simp: api_error_message_def js_or_def Let_def)
qed

lemma api_error_message_syntax:
  "body r = SyntaxError s \<Longrightarrow> api_error_message r = JStr (''API error: '' @ show_nat (status r))"
  by (simp add: api_error_message_def Let_def)

text \<open>
  C3, as the code has it. For a status that is not 2xx, 429, 401 or 403 the failure is an
  API failure carrying the status. Its message is the first of the body's \<open>detail\<close>,
  \<open>message\<close> and \<open>error\<close> fields whose value is truthy (so not absent, \<open>null\<close>,
  \<open>false\<close>, \<open>0\<close> or the empty string); when the body is a JSON object with no such field,
  a JSON value that is not an object, or not JSON at all, the message is
  \<open>API error: <status>\<close>.
\<close>

theorem api_failure_message:
  assumes "status r \<noteq> 429" and "status r \<noteq> 401" and "status r \<noteq> 403" and "\<not> response_ok r"
  shows "\<exists>m. handle_response r = Inl (ShippoApiError m (status r)) \<and>
           (\<forall>kvs. body r = Decoded (JObj kvs) \<longrightarrow>
              m = (if truthy (own_property kvs ''detail'') then own_property kvs ''detail''
                   else if truthy (own_property kvs ''message'') then own_property kvs ''message''
                   else if truthy (own_property kvs ''error'') then own_property kvs ''error''
                   else JStr (''API error: '' @ show_nat (status r)))) \<and>
           (\<forall>v. body r = Decoded v \<longrightarrow> (\<forall>kvs. v \<noteq> JObj kvs) \<longrightarrow>
              m = JStr (''API error: '' @ show_nat (status r))) \<and>
           (\<forall>s. body r = SyntaxError s \<longrightarrow> m = JStr (''API error: '' @ show_nat (status r)))"
proof -
  have "handle_response r = Inl (ShippoApiError (api_error_message r) (status r))"
    using assms by (simp add: handle_response_def)
  then show ?thesis
    using api_error_message_object[of r] api_error_message_other[of r] api_error_message_syntax[of r]
    by blast
qed

text \<open>The amended C3 at a 422 whose body is \<open>{"detail": "Invalid zip"}\<close>.\<close>

theorem api_failure_message_witness:
  "status \<lparr> status = 422, resp_headers = [],
            body = Decoded (JObj [(''detail'', JStr ''Invalid zip'')]) \<rparr> \<noteq> 429 \<and>
   \<not> response_ok \<lparr> status = 422, resp_headers = [],
                    body = Decoded (JObj [(''detail'', JStr ''Invalid zip'')]) \<rparr> \<and>
   handle_response \<lparr> status = 422, resp_headers = [],
                     body = Decoded (JObj [(''detail'', JStr ''Invalid zip'')]) \<rparr>
     = Inl (ShippoApiError (JStr ''Invalid zip'') 422)"
proof -
  let ?r = "\<lparr> status = 422, resp_headers = [], body = Decoded (JObj [(''detail'', JStr ''Invalid zip'')]) \<rparr>"
  have h: "status ?r \<noteq> 429" "status ?r \<noteq> 401" "status ?r \<noteq> 403" "\<not> response_ok ?r"
    by (simp_all add: response_ok_def)
  have p: "own_property [(''detail'', JStr ''Invalid zip'')] ''detail'' = JStr ''Invalid zip''"
    by (simp add: own_property_def)
  from api_failure_message[OF h] obtain m where
    m: "handle_response ?r = Inl (ShippoApiError m (status ?r))"
       "\<forall>kvs. body ?r = Decoded (JObj kvs) \<longrightarrow>
              m = (if truthy (own_property kvs ''detail'') then own_property kvs ''detail''
                   else if truthy (own_property kvs ''message'') then own_property kvs ''message''
                   else if truthy (own_property kvs ''error'') then own_property kvs ''error''
                   else JStr (''API error: '' @ show_nat (status ?r)))"
    by blast
  from m(2) p have "m = JStr ''Invalid zip''" by simp
  with m(1) h show ?thesis by simp
qed

text \<open>
  C3 as stated fails: the body \<open>{"detail": "", "message": "Invalid address"}\<close> is valid
  JSON containing \<open>detail\<close>, whose value is the empty string, and the message of the
  failure is \<open>Invalid address\<close>.
\<close>

theorem empty_detail_is_skipped:
  "handle_response \<lparr> status = 400, resp_headers = [],
       body = Decoded (JObj [(''detail'', JStr []), (''message'', JStr ''Invalid address'')]) \<rparr>
   = Inl (ShippoApiError (JStr ''Invalid address'') 400) \<and>
   own_property [(''detail'', JStr []), (''message'', JStr ''Invalid address'')] ''detail'' = JStr []"
  by code_simp

section \<open>The query string\<close>

lemma set_fresh: "k \<notin> fst ` set q \<Longrightarrow> URLSearchParams_set q k v = q @ [(k, v)]"
  by (induction q) auto

lemma fold_entries:
  "distinct (map fst entries) \<Longrightarrow> fst ` set q \<inter> fst ` set entries = {} \<Longrightarrow>
   foldl (\<lambda>q kv. if present (snd kv) then URLSearchParams_set q (fst kv) (js_String (snd kv)) else q)
     q entries
   = q @ map (\<lambda>kv. (fst kv, js_String (snd kv))) (filter (\<lambda>kv. present (snd kv)) entries)"
proof (induction entries arbitrary: q)
  case Nil
  then show ?case by simp
next
  case (Cons kv entries)
  from Cons.prems have d: "distinct (map fst entries)" by simp
  show ?case
  proof (cases "present (snd kv)")
    case True
    from Cons.prems have fresh: "fst kv \<notin> fst ` set q" by auto
    have disj: "fst ` set (q @ [(fst kv, js_String (snd kv))]) \<inter> fst ` set entries = {}"
      using Cons.prems by auto
    show ?thesis using True Cons.IH[OF d disj] by (simp add: set_fresh[OF fresh])
  next
    case False
    from Cons.prems have disj: "fst ` set q \<inter> fst ` set entries = {}" by auto
    show ?thesis using False Cons.IH[OF d disj] by simp
  qed
qed

lemma join_nonempty: "xs \<noteq> [] \<Longrightarrow> hd xs \<noteq> [] \<Longrightarrow> join sep xs \<noteq> []"
  by (cases "(sep, xs)" rule: join.cases) auto

lemma toString_empty_iff: "URLSearchParams_toString q = [] \<longleftrightarrow> q = []"
proof (cases q)
  case Nil
  then show ?thesis by (simp add: URLSearchParams_toString_def)
next
  case (Cons p ps)
  then have "join ''&'' (map (\<lambda>p. url_encode (fst p) @ ''='' @ url_encode (snd p)) q) \<noteq> []"
    by (intro join_nonempty) auto
  with Cons show ?thesis by (simp add: URLSearchParams_toString_def)
qed

text \<open>
  C5. The query-string builder gives the empty string for an absent mapping. For a
  mapping (its keys are distinct, being the keys of an object) it keeps, in the order of
  the mapping, the entries whose value is neither \<open>undefined\<close> nor \<open>null\<close>, and nothing of
  the others; when none is kept the result is the empty string, otherwise it is \<open>?\<close>
  followed by the kept entries, each as the name, \<open>=\<close> and the stringified value (both
  form-urlencoded), joined by \<open>&\<close>.
\<close>

theorem buildQueryString_contract:
  assumes "distinct (map fst entries)"
  shows "buildQueryString None = [] \<and>
         buildQueryString (Some entries) =
           (let kept = filter (\<lambda>kv. present (snd kv)) entries in
            if kept = [] then []
            else ''?'' @ join ''&'' (map (\<lambda>kv. url_encode (fst kv) @ ''='' @
                                                 url_encode (js_String (snd kv))) kept))"
proof -
  have q: "foldl (\<lambda>q kv. if present (snd kv)
                          then URLSearchParams_set q (fst kv) (js_String (snd kv)) else q) [] entries
       = map (\<lambda>kv. (fst kv, js_String (snd kv))) (filter (\<lambda>kv. present (snd kv)) entries)"
    using fold_entries[OF assms, of "[]"] by simp
  show ?thesis
    by (simp add: buildQueryString_def q toString_empty_iff Let_def)
       (simp add: URLSearchParams_toString_def comp_def)
qed

text \<open>C5 at \<open>{results: 20, page: undefined}\<close>, at \<open>{}\<close> and at an absent mapping.\<close>

theorem buildQueryString_contract_witness:
  "distinct (map fst [(''results'', JNum 20), (''page'', JUndefined)]) \<and>
   buildQueryString (Some [(''results'', JNum 20), (''page'', JUndefined)]) = ''?results=20'' \<and>
   buildQueryString (Some []) = [] \<and> buildQueryString None = []"
proof -
  have d: "distinct (map fst [(''results'', JNum 20), (''page'', JUndefined)])" by simp
  have d0: "distinct (map fst ([] :: (string \<times> jsvalue) list))" by simp
  have r: "(let kept = filter (\<lambda>kv. present (snd kv)) [(''results'', JNum 20), (''page'', JUndefined)] in
            if kept = [] then []
            else ''?'' @ join ''&'' (map (\<lambda>kv. url_encode (fst kv) @ ''='' @
                                                 url_encode (js_String (snd kv))) kept))
           = ''?results=20''" by code_simp
  from buildQueryString_contract[OF d] r
  have a: "buildQueryString (Some [(''results'', JNum 20), (''page'', JUndefined)]) = ''?results=20''"
    by simp
  from buildQueryString_contract[OF d0]
  have b: "buildQueryString (Some []) = [] \<and> buildQueryString None = []"
    by simp
  from d a b show ?thesis by blast
qed

section \<open>Operations that reshape the outcome\<close>

text \<open>
  C6. When the remote answers the live-rate call with a success (a 2xx other than 204)
  whose body is an object with the field \<open>results\<close>, \<open>createLiveRate\<close> returns the value
  of that field, not the object around it, after one network call.
\<close>

theorem createLiveRate_unwraps:
  assumes "or_undefined (apiKey (credentials c)) = Some k"
      and "\<forall>req. fetch rt req = Inr r"
      and "response_ok r" and "status r \<noteq> 204"
      and "body r = Decoded (JObj kvs)" and "map_of kvs ''results'' = Some rs"
  shows "createLiveRate c rt input n = (Inr rs, Suc n)"
proof -
  from assms(3) have "status r \<noteq> 429" "status r \<noteq> 401" "status r \<noteq> 403"
    by (auto simp: response_ok_def)
  with assms have "handle_response r = Inr (JObj kvs)"
    by (simp add: handle_response_def)
  with assms show ?thesis
    by (simp add: createLiveRate_def request_with_key[OF assms(1)] get_prop_def own_property_def)
qed

text \<open>C6 at the body \<open>{results: [{title: "USPS Priority", amount: "7.50"}]}\<close>.\<close>

theorem createLiveRate_unwraps_witness:
  "createLiveRate demo_client
     (demo_runtime (Inr \<lparr> status = 200, resp_headers = [], body = Decoded live_rates_body \<rparr>))
     (JObj [(''address_to'', JStr ''addr_1'')]) 0
   = (Inr (JArr [JObj [(''title'', JStr ''USPS Priority''), (''amount'', JStr ''7.50'')]]), 1)"
proof -
  let ?r = "\<lparr> status = 200, resp_headers = [], body = Decoded live_rates_body \<rparr>"
  have f: "\<forall>req. fetch (demo_runtime (Inr ?r)) req = Inr ?r" by (simp add: demo_runtime_def)
  have ok: "response_ok ?r" "status ?r \<noteq> 204" by (simp_all add: response_ok_def)
  have b: "body ?r = Decoded (JObj [(''results'',
             JArr [JObj [(''title'', JStr ''USPS Priority''), (''amount'', JStr ''7.50'')]])])"
    by (simp add: live_rates_body_def)
  have m: "map_of [(''results'', JArr [JObj [(''title'', JStr ''USPS Priority''), (''amount'', JStr ''7.50'')]])]
             ''results''
           = Some (JArr [JObj [(''title'', JStr ''USPS Priority''), (''amount'', JStr ''7.50'')]])"
    by simp
  from createLiveRate_unwraps[OF demo_client_key f ok b m] show ?thesis by simp
qed

text \<open>
  C2, as the code has it. When the underlying request of \<open>getDefaultParcelTemplate\<close>
  throws an API failure with status 404, the operation returns \<open>null\<close> as a normal
  result; every other failure of the request is the outcome of the operation, unchanged;
  and the value of a successful request is returned as it is. So \<open>null\<close> is returned
  exactly when the request throws a 404 API failure or succeeds with the value \<open>null\<close>.
\<close>

theorem getDefaultParcelTemplate_outcomes:
  "(\<forall>m. fst (request c rt ''/live-rates/settings/parcel-template'' no_options n)
          = Inl (ShippoApiError m 404) \<longrightarrow>
        fst (getDefaultParcelTemplate c rt n) = Inr JNull) \<and>
   (\<forall>e. fst (request c rt ''/live-rates/settings/parcel-template'' no_options n) = Inl e \<longrightarrow>
        (\<forall>m. e \<noteq> ShippoApiError m 404) \<longrightarrow>
        getDefaultParcelTemplate c rt n =
          request c rt ''/live-rates/settings/parcel-template'' no_options n) \<and>
   (\<forall>v. fst (request c rt ''/live-rates/settings/parcel-template'' no_options n) = Inr v \<longrightarrow>
        getDefaultParcelTemplate c rt n =
          request c rt ''/live-rates/settings/parcel-template'' no_options n) \<and>
   (fst (getDefaultParcelTemplate c rt n) = Inr JNull \<longleftrightarrow>
      (\<exists>m. fst (request c rt ''/live-rates/settings/parcel-template'' no_options n)
             = Inl (ShippoApiError m 404)) \<or>
      fst (request c rt ''/live-rates/settings/parcel-template'' no_options n) = Inr JNull) \<and>
   snd (getDefaultParcelTemplate c rt n) =
     snd (request c rt ''/live-rates/settings/parcel-template'' no_options n)"
proof (cases "request c rt ''/live-rates/settings/parcel-template'' no_options n")
  case (Pair outcome n')
  show ?thesis
  proof (cases outcome)
    case (Inl e)
    with Pair show ?thesis
      by (cases e) (auto simp: getDefaultParcelTemplate_def)
  next
    case (Inr v)
    with Pair show ?thesis
      by (auto simp: getDefaultParcelTemplate_def)
  qed
qed

text \<open>The amended C2 at a remote that answers 404 with a body that is not JSON.\<close>

theorem getDefaultParcelTemplate_outcomes_witness:
  "fst (request demo_client
          (demo_runtime (Inr \<lparr> status = 404, resp_headers = [], body = SyntaxError ''Unexpected token'' \<rparr>))
          ''/live-rates/settings/parcel-template'' no_options 0)
     = Inl (ShippoApiError (JStr ''API error: 404'') 404) \<and>
   fst (getDefaultParcelTemplate demo_client
          (demo_runtime (Inr \<lparr> status = 404, resp_headers = [], body = SyntaxError ''Unexpected token'' \<rparr>)) 0)
     = Inr JNull"
proof -
  let ?rt = "demo_runtime (Inr \<lparr> status = 404, resp_headers = [], body = SyntaxError ''Unexpected token'' \<rparr>)"
  have h: "fst (request demo_client ?rt ''/live-rates/settings/parcel-template'' no_options 0)
             = Inl (ShippoApiError (JStr ''API error: 404'') 404)"
    by code_simp
  from getDefaultParcelTemplate_outcomes[of demo_client ?rt 0] h show ?thesis by blast
qed

text \<open>
  C2 as stated fails: when the remote answers 200 with the body \<open>null\<close>, the request
  throws nothing, it returns \<open>null\<close>, and so does the operation.
\<close>

theorem null_body_returns_null_without_404:
  "fst (request demo_client
          (demo_runtime (Inr \<lparr> status = 200, resp_headers = [], body = Decoded JNull \<rparr>))
          ''/live-rates/settings/parcel-template'' no_options 0)
     = Inr JNull \<and>
   fst (getDefaultParcelTemplate demo_client
          (demo_runtime (Inr \<lparr> status = 200, resp_headers = [], body = Decoded JNull \<rparr>)) 0)
     = Inr JNull"
  by code_simp

text \<open>
  C8. \<open>testConnection\<close> never throws: whatever the underlying list-addresses request
  does, it returns a value, whose \<open>connected\<close> is true exactly when the request succeeded;
  when the request failed, \<open>connected\<close> is false and the message is the failure's message
  (\<open>Connection failed\<close> for a thrown value that is not an \<open>Error\<close>).
\<close>

theorem testConnection_never_throws:
  "\<exists>s. fst (testConnection c rt n) = Inr s \<and>
       (connected s \<longleftrightarrow> (\<exists>v. fst (request c rt ''/addresses?results=1'' no_options n) = Inr v)) \<and>
       (\<forall>e. fst (request c rt ''/addresses?results=1'' no_options n) = Inl e \<longrightarrow>
            \<not> connected s \<and>
            message s = (if instanceof_Error e then error_message e else JStr ''Connection failed''))"
  by (cases "request c rt ''/addresses?results=1'' no_options n")
     (auto simp: testConnection_def split: sum.splits)

text \<open>C8 at a remote that cannot be reached: \<open>fetch\<close> itself throws.\<close>

theorem testConnection_never_throws_witness:
  "fst (request demo_client (demo_runtime (Inl (JsError ''fetch failed''))) ''/addresses?results=1'' no_options 0)
     = Inl (JsError ''fetch failed'') \<and>
   fst (testConnection demo_client (demo_runtime (Inl (JsError ''fetch failed''))) 0)
     = Inr \<lparr> connected = False, message = JStr ''fetch failed'' \<rparr>"
proof -
  let ?rt = "demo_runtime (Inl (JsError ''fetch failed''))"
  have h: "fst (request demo_client ?rt ''/addresses?results=1'' no_options 0) = Inl (JsError ''fetch failed'')"
    by code_simp
  from testConnection_never_throws[of demo_client ?rt 0] obtain s where
    s: "fst (testConnection demo_client ?rt 0) = Inr s"
       "\<forall>e. fst (request demo_client ?rt ''/addresses?results=1'' no_options 0) = Inl e \<longrightarrow>
            \<not> connected s \<and>
            message s = (if instanceof_Error e then error_message e else JStr ''Connection failed'')"
    by blast
  from s(2) h have "\<not> connected s \<and> message s = JStr ''fetch failed''" by simp
  then have "s = \<lparr> connected = False, message = JStr ''fetch failed'' \<rparr>" by (cases s) simp
  with s(1) h show ?thesis by simp
qed

section \<open>Missing keys\<close>

lemma invoke_without_key:
  assumes "or_undefined (apiKey (credentials c)) = None"
  shows "invoke c rt operation n =
           (if operation = TestConnection
            then Inr (JObj [(''connected'', JBool False),
                            (''message'', JStr ''No credentials provided. Include X-Shippo-API-Key header.'')])
            else Inl (AuthenticationError ''No credentials provided. Include X-Shippo-API-Key header.''),
            n)"
  by (cases operation)
     (simp_all add: request_no_key[OF assms] discard_def createLiveRate_def
        getDefaultParcelTemplate_def testConnection_def)

text \<open>
  C4, as the code has it. With an undefined key no operation makes a network call: every
  operation other than \<open>testConnection\<close> throws the authentication failure, and
  \<open>testConnection\<close>, which catches every failure, returns \<open>connected: false\<close> with the
  failure's message.
\<close>

theorem undefined_key_no_network_call:
  assumes "apiKey (credentials c) = None"
  shows "(operation \<noteq> TestConnection \<longrightarrow>
            invoke c rt operation n =
              (Inl (AuthenticationError ''No credentials provided. Include X-Shippo-API-Key header.''), n)) \<and>
         invoke c rt TestConnection n =
           (Inr (JObj [(''connected'', JBool False),
                       (''message'', JStr ''No credentials provided. Include X-Shippo-API-Key header.'')]), n) \<and>
         snd (invoke c rt operation n) = n"
proof -
  from assms have k: "or_undefined (apiKey (credentials c)) = None" by (simp add: or_undefined_def)
  show ?thesis by (simp add: invoke_without_key[OF k] del: invoke.simps)
qed

text \<open>The amended C4 at listing addresses with page size 20 and no key.\<close>

theorem undefined_key_no_network_call_witness:
  "apiKey (credentials (createShippoClient \<lparr> apiKey = None, baseUrl = None \<rparr>)) = None \<and>
   ListAddresses (Some [(''results'', JNum 20)]) \<noteq> TestConnection \<and>
   invoke (createShippoClient \<lparr> apiKey = None, baseUrl = None \<rparr>)
     (demo_runtime (Inl (JsError ''unreachable''))) (ListAddresses (Some [(''results'', JNum 20)])) 0
   = (Inl (AuthenticationError ''No credentials provided. Include X-Shippo-API-Key header.''), 0)"
proof -
  have k: "apiKey (credentials (createShippoClient \<lparr> apiKey = None, baseUrl = None \<rparr>)) = None"
    by (simp add: createShippoClient_def)
  have d: "ListAddresses (Some [(''results'', JNum 20)]) \<noteq> TestConnection" by simp
  from undefined_key_no_network_call[OF k, of "ListAddresses (Some [(''results'', JNum 20)])"] k d
  show ?thesis by blast
qed

text \<open>
  C4 as stated fails at \<open>testConnection\<close>: with an undefined key it does not throw, it
  returns \<open>connected: false\<close>.
\<close>

theorem testConnection_undefined_key_returns:
  "invoke (createShippoClient \<lparr> apiKey = None, baseUrl = None \<rparr>)
     (demo_runtime (Inl (JsError ''unreachable''))) TestConnection 0
   = (Inr (JObj [(''connected'', JBool False),
                 (''message'', JStr ''No credentials provided. Include X-Shippo-API-Key header.'')]), 0)"
  by code_simp

text \<open>
  C9, as the code has it. An empty \<open>X-Shippo-API-Key\<close> header is parsed to an undefined
  key, as an absent header is, and the client's key check takes the empty string for a
  missing key: with an empty-string key no operation makes a network call, every
  operation other than \<open>testConnection\<close> throws the authentication failure, and
  \<open>testConnection\<close> returns \<open>connected: false\<close>.
\<close>

theorem empty_key_is_missing_key:
  "(headers_get hs ''X-Shippo-API-Key'' = Some [] \<or> headers_get hs ''X-Shippo-API-Key'' = None
      \<longrightarrow> apiKey (parseTenantCredentials hs) = None) \<and>
   (apiKey (credentials c) = Some [] \<longrightarrow>
      getAuthHeaders c =
        Inl (AuthenticationError ''No credentials provided. Include X-Shippo-API-Key header.'') \<and>
      (operation \<noteq> TestConnection \<longrightarrow>
         invoke c rt operation n =
           (Inl (AuthenticationError ''No credentials provided. Include X-Shippo-API-Key header.''), n)) \<and>
      invoke c rt TestConnection n =
        (Inr (JObj [(''connected'', JBool False),
                    (''message'', JStr ''No credentials provided. Include X-Shippo-API-Key header.'')]), n) \<and>
      snd (invoke c rt operation n) = n)"
proof -
  have parse: "headers_get hs ''X-Shippo-API-Key'' = Some [] \<or> headers_get hs ''X-Shippo-API-Key'' = None
      \<longrightarrow> apiKey (parseTenantCredentials hs) = None"
    by (auto simp: parseTenantCredentials_def or_undefined_def)
  have client: "getAuthHeaders c =
        Inl (AuthenticationError ''No credentials provided. Include X-Shippo-API-Key header.'') \<and>
      (operation \<noteq> TestConnection \<longrightarrow>
         invoke c rt operation n =
           (Inl (AuthenticationError ''No credentials provided. Include X-Shippo-API-Key header.''), n)) \<and>
      invoke c rt TestConnection n =
        (Inr (JObj [(''connected'', JBool False),
                    (''message'', JStr ''No credentials provided. Include X-Shippo-API-Key header.'')]), n) \<and>
      snd (invoke c rt operation n) = n"
    if e: "apiKey (credentials c) = Some []"
  proof -
    from e have k: "or_undefined (apiKey (credentials c)) = None" by (simp add: or_undefined_def)
    show ?thesis by (simp add: invoke_without_key[OF k] getAuthHeaders_def k del: invoke.simps)
  qed
  from parse client show ?thesis by blast
qed

text \<open>The amended C9 at an empty header and at getting an address with the key \<open>""\<close>.\<close>

theorem empty_key_is_missing_key_witness:
  "headers_get [(''x-shippo-api-key'', [])] ''X-Shippo-API-Key'' = Some [] \<and>
   apiKey (parseTenantCredentials [(''x-shippo-api-key'', [])]) = None \<and>
   apiKey (credentials (createShippoClient \<lparr> apiKey = Some [], baseUrl = None \<rparr>)) = Some [] \<and>
   GetAddress ''addr_1'' \<noteq> TestConnection \<and>
   invoke (createShippoClient \<lparr> apiKey = Some [], baseUrl = None \<rparr>)
     (demo_runtime (Inl (JsError ''unreachable''))) (GetAddress ''addr_1'') 0
   = (Inl (AuthenticationError ''No credentials provided. Include X-Shippo-API-Key header.''), 0)"
proof -
  have h: "headers_get [(''x-shippo-api-key'', [])] ''X-Shippo-API-Key'' = Some []" by code_simp
  have k: "apiKey (credentials (createShippoClient \<lparr> apiKey = Some [], baseUrl = None \<rparr>)) = Some []"
    by (simp add: createShippoClient_def)
  have d: "GetAddress ''addr_1'' \<noteq> TestConnection" by simp
  from empty_key_is_missing_key[of "[(''x-shippo-api-key'', [])]"
         "createShippoClient \<lparr> apiKey = Some [], baseUrl = None \<rparr>" "GetAddress ''addr_1''"
         "demo_runtime (Inl (JsError ''unreachable''))" 0] h k d
  show ?thesis by blast
qed

text \<open>
  C9 as stated fails at \<open>testConnection\<close>: with the credentials parsed from an empty
  header, and with the empty string as the key, it does not throw, it returns
  \<open>connected: false\<close>.
\<close>

theorem testConnection_empty_header_returns:
  "invoke (createShippoClient (parseTenantCredentials [(''X-Shippo-API-Key'', [])]))
     (demo_runtime (Inl (JsError ''unreachable''))) TestConnection 0
   = (Inr (JObj [(''connected'', JBool False),
                 (''message'', JStr ''No credentials provided. Include X-Shippo-API-Key header.'')]), 0) \<and>
   invoke (createShippoClient \<lparr> apiKey = Some [], baseUrl = None \<rparr>)
     (demo_runtime (Inl (JsError ''unreachable''))) TestConnection 0
   = (Inr (JObj [(''connected'', JBool False),
                 (''message'', JStr ''No credentials provided. Include X-Shippo-API-Key header.'')]), 0)"
  by code_simp

section \<open>The tool boundary\<close>

text \<open>
  C7. When a client operation throws during a tool invocation, the handler's
  \<open>try\<close>/\<open>catch\<close> returns a normal value of the error-envelope shape: one text item
  holding the JSON of \<open>{error: message, details: ...}\<close>, and \<open>isError\<close> set to true.
  This holds whatever the handler does with a result (rendering may throw as well), so in
  particular for the list-addresses handler; and a handler never ends in a failure.
\<close>

theorem tool_layer_catches_client_failures:
  assumes "fst (invoke c rt operation n) = Inl e"
  shows "try_catch em rt (and_then (fst (invoke c rt operation n)) render) =
           Inr \<lparr> content = [\<lparr> content_type = ''text'',
                                text = JSON_stringify2 rt (JObj [(''error'', JStr (error_line em e)),
                                                                 (''details'', formatErrorForLogging em e)]) \<rparr>],
                  isError = Some True \<rparr> \<and>
         (operation = ListAddresses (Some [(''results'', page_size), (''page'', page)]) \<longrightarrow>
            fst (shippo_list_addresses em c rt page_size page format n) =
              Inr \<lparr> content = [\<lparr> content_type = ''text'',
                                   text = JSON_stringify2 rt (JObj [(''error'', JStr (error_line em e)),
                                                                    (''details'', formatErrorForLogging em e)]) \<rparr>],
                     isError = Some True \<rparr>) \<and>
         (\<exists>r. try_catch em rt attempt = Inr r)"
proof -
  have a: "try_catch em rt (and_then (Inl e) k) =
           Inr \<lparr> content = [\<lparr> content_type = ''text'',
                                text = JSON_stringify2 rt (JObj [(''error'', JStr (error_line em e)),
                                                                 (''details'', formatErrorForLogging em e)]) \<rparr>],
                  isError = Some True \<rparr>" for k :: "jsvalue \<Rightarrow> error + ToolResponse"
    by (simp add: try_catch_def and_then_def formatError_def Let_def)
  have b: "\<exists>r. try_catch em rt attempt = Inr r"
    by (cases attempt) (simp_all add: try_catch_def)
  from assms a b show ?thesis
    by (auto simp: shippo_list_addresses_def split: prod.splits)
qed

text \<open>C7 at the list-addresses tool against a remote that answers 500.\<close>

theorem tool_layer_catches_client_failures_witness:
  "fst (invoke demo_client (demo_runtime (Inr server_error))
          (ListAddresses (Some [(''results'', JNum 20), (''page'', JUndefined)])) 0)
     = Inl (ShippoApiError (JStr ''Internal error'') 500) \<and>
   fst (shippo_list_addresses demo_errors demo_client (demo_runtime (Inr server_error))
          (JNum 20) JUndefined Json 0)
     = Inr \<lparr> content = [\<lparr> content_type = ''text'',
                            text = JSON_stringify2 (demo_runtime (Inr server_error))
                                     (JObj [(''error'', JStr ''Error: Internal error''),
                                            (''details'', JObj [(''message'', JStr ''Internal error'')])]) \<rparr>],
              isError = Some True \<rparr>"
proof -
  let ?rt = "demo_runtime (Inr server_error)"
  let ?op = "ListAddresses (Some [(''results'', JNum 20), (''page'', JUndefined)])"
  have h: "fst (invoke demo_client ?rt ?op 0) = Inl (ShippoApiError (JStr ''Internal error'') 500)"
    by code_simp
  have l: "error_line demo_errors (ShippoApiError (JStr ''Internal error'') 500) = ''Error: Internal error''"
    by (simp add: error_line_def demo_errors_def)
  have d: "formatErrorForLogging demo_errors (ShippoApiError (JStr ''Internal error'') 500)
             = JObj [(''message'', JStr ''Internal error'')]"
    by (simp add: demo_errors_def)
  from tool_layer_catches_client_failures[OF h, of demo_errors _ "JNum 20" JUndefined Json]
  have "fst (shippo_list_addresses demo_errors demo_client ?rt (JNum 20) JUndefined Json 0) =
          Inr \<lparr> content = [\<lparr> content_type = ''text'',
                   text = JSON_stringify2 ?rt
                            (JObj [(''error'', JStr (error_line demo_errors (ShippoApiError (JStr ''Internal error'') 500))),
                                   (''details'', formatErrorForLogging demo_errors
                                                   (ShippoApiError (JStr ''Internal error'') 500))]) \<rparr>],
                 isError = Some True \<rparr>"
    by blast
  with h l d show ?thesis by simp
qed

section \<open>Empty lists\<close>

lemma join_from_bar: "join sep (x # y # ys) \<noteq> ''_No items_''" if "hd x = CHR ''|''" "x \<noteq> []"
  using that by (cases x) auto

lemma generic_table_of_items: "formatGenericTable items \<noteq> Inr ''_No items_''" if "items \<noteq> []"
proof -
  have "table h r row items \<noteq> Inr ''_No items_''" if "hd h = CHR ''|''" "h \<noteq> []" for h r row
    using that join_from_bar[of h nl r]
    by (auto simp: table_def and_then_def split: sum.splits)
  then show ?thesis using that
    by (auto simp: formatGenericTable_def Let_def and_then_def split: sum.splits)
qed

text \<open>
  C10. For a paginated response whose results are empty, the Markdown formatter returns
  the heading, the blank line, the line of counts, the note on a next page when there is
  one, a blank line and \<open>_No items found._\<close>: no table of any entity type is part of it.
  The generic table formatter returns \<open>_No items_\<close> for the empty array, and only for it:
  the first element is read only of a non-empty array.
\<close>

theorem empty_results_no_table:
  "(results data = [] \<longrightarrow>
      formatPaginatedAsMarkdown data entityType =
        Inr (join nl ([''## '' @ capitalize entityType, [],
                       ''**Total:** '' @ js_String (count data) @ '' | **Showing:** 0'']
                      @ (if truthy (next data) then [''**Next page available**''] else [])
                      @ [[], ''_No items found._'']))) \<and>
   formatGenericTable [] = Inr ''_No items_'' \<and>
   (formatGenericTable items = Inr ''_No items_'' \<longleftrightarrow> items = [])"
proof -
  have z: "show_nat 0 = ''0''" by (subst show_nat.simps) simp
  have a: "results data = [] \<longrightarrow>
      formatPaginatedAsMarkdown data entityType =
        Inr (join nl ([''## '' @ capitalize entityType, [],
                       ''**Total:** '' @ js_String (count data) @ '' | **Showing:** 0'']
                      @ (if truthy (next data) then [''**Next page available**''] else [])
                      @ [[], ''_No items found._'']))"
    by (simp add: formatPaginatedAsMarkdown_def paginated_head_def Let_def z)
  have b: "formatGenericTable [] = Inr ''_No items_''"
    by (simp add: formatGenericTable_def)
  from a b generic_table_of_items[of items] show ?thesis by blast
qed

text \<open>C10 at \<open>{count: 0, results: []}\<close> rendered as addresses.\<close>

theorem empty_results_no_table_witness:
  "results \<lparr> count = JNum 0, next = JUndefined, previous = JUndefined, results = [] \<rparr> = [] \<and>
   formatPaginatedAsMarkdown
     \<lparr> count = JNum 0, next = JUndefined, previous = JUndefined, results = [] \<rparr> ''addresses''
   = Inr (''## Addresses'' @ nl @ nl @ ''**Total:** 0 | **Showing:** 0'' @ nl @ nl @ ''_No items found._'')"
proof -
  let ?d = "\<lparr> count = JNum 0, next = JUndefined, previous = JUndefined, results = [] \<rparr>"
  have r: "results ?d = []" by simp
  have e: "join nl ([''## '' @ capitalize ''addresses'', [],
                       ''**Total:** '' @ js_String (count ?d) @ '' | **Showing:** 0'']
                      @ (if truthy (next ?d) then [''**Next page available**''] else [])
                      @ [[], ''_No items found._''])
           = ''## Addresses'' @ nl @ nl @ ''**Total:** 0 | **Showing:** 0'' @ nl @ nl @ ''_No items found._''"
    by code_simp
  from empty_results_no_table[of ?d "''addresses''"] r
  have "formatPaginatedAsMarkdown ?d ''addresses'' =
        Inr (join nl ([''## '' @ capitalize ''addresses'', [],
                       ''**Total:** '' @ js_String (count ?d) @ '' | **Showing:** 0'']
                      @ (if truthy (next ?d) then [''**Next page available**''] else [])
                      @ [[], ''_No items found._'']))"
    by blast
  with e r show ?thesis by simp
qed

end
